theory Spec2Isabelle
  imports Complex_Main "HOL-Library.Sublist" "HOL-Library.Multiset"
begin

section \<open>The data tool of tools/data\_tool.py\<close>

text \<open>
  A shallow embedding of class \<open>DataTool\<close>: its TTL cache
  (\<open>_get_cached\<close>, \<open>_set_cache\<close>, \<open>_fetch_or_cache\<close>; the leading underscore is
  dropped, since an Isabelle name cannot start with one) and the derivations computed from
  cached values (streak, trends, metrics, competitive context, momentum, top performers).

  Conventions.
  \<^item> A raised Python exception is the \<open>Inl\<close> branch of a sum; a normal return is \<open>Inr\<close>.
  \<^item> \<open>datetime\<close> values are integers: microseconds since \<open>datetime.min\<close>. Every call of
    \<open>datetime.now()\<close> is a parameter of the function that makes the call.
  \<^item> Python's \<open>None\<close> in a position typed \<open>Optional[...]\<close> is \<open>None\<close> of an option type.
  \<^item> A dictionary that the code builds either empty or with a fixed set of keys is an
    option of a record: \<open>None\<close> is \<open>{}\<close>.
  \<^item> Python floats are real numbers (no rounding error, no infinities); the one place where
    a NaN can arise has its own type \<open>pyfloat\<close>.
  \<^item> The calls to the external NBA API are parameters holding the outcome of the call.
\<close>

subsection \<open>Exceptions and time\<close>

datatype exn = OverflowError | StatisticsError | ProviderError

type_synonym datetime = int

text \<open>\<open>datetime.max\<close> is 9999-12-31 23:59:59.999999, the last microsecond of day 3652059.\<close>

definition datetime_max :: datetime where
  "datetime_max = 3652059 * 86400 * 1000000 - 1"

text \<open>
  \<open>now + timedelta(seconds=s)\<close>. Python raises \<open>OverflowError\<close> when the sum leaves
  \<open>[datetime.min, datetime.max]\<close>; a \<open>timedelta\<close> too large to build raises the same
  exception and would leave that range as well.
\<close>

definition add_seconds :: "datetime \<Rightarrow> int \<Rightarrow> exn + datetime" where
  "add_seconds now s =
     (let r = now + s * 1000000
      in if r < 0 \<or> datetime_max < r then Inl OverflowError else Inr r)"

subsection \<open>The cache\<close>

text \<open>\<open>self._cache: Dict[str, tuple]\<close>, \<open>{key: (data, expiry_time)}\<close>. The data may be \<open>None\<close>.\<close>

type_synonym 'v cache = "string \<rightharpoonup> ('v option \<times> datetime)"

text \<open>
  \<open>_get_cached(key, ttl_seconds)\<close> returns the data (or \<open>None\<close>) and the cache, from which
  an expired entry has been deleted.
\<close>

definition get_cached ::
  "'v cache \<Rightarrow> string \<Rightarrow> int option \<Rightarrow> datetime \<Rightarrow> 'v option \<times> 'v cache" where
  "get_cached c key ttl_seconds now =
     (case c key of
        None \<Rightarrow> (None, c)
      | Some (data, expiry) \<Rightarrow>
          if ttl_seconds = None \<or> now < expiry then (data, c)
          else (None, c(key := None)))"

text \<open>
  \<open>_set_cache(key, data, ttl_seconds)\<close>. The test \<open>if ttl_seconds\<close> is Python truthiness:
  both \<open>None\<close> and \<open>0\<close> take the \<open>datetime.max\<close> branch.
\<close>

definition set_cache ::
  "'v cache \<Rightarrow> string \<Rightarrow> 'v option \<Rightarrow> int option \<Rightarrow> datetime \<Rightarrow> exn + 'v cache" where
  "set_cache c key data ttl_seconds now =
     (case (case ttl_seconds of
              None \<Rightarrow> Inr datetime_max
            | Some s \<Rightarrow> if s \<noteq> 0 then add_seconds now s else Inr datetime_max) of
        Inl e \<Rightarrow> Inl e
      | Inr expiry \<Rightarrow> Inr (c(key \<mapsto> (data, expiry))))"

text \<open>
  \<open>_fetch_or_cache(key, fetch_func, ttl_seconds)\<close>. \<open>fetch_func\<close> is the outcome of calling
  the loader (an exception or the loaded data); it is looked at only on a miss.
  \<open>t_get\<close> and \<open>t_set\<close> are the two readings of the clock, before and after the load.
  An exception leaves the cache as \<open>_get_cached\<close> left it.
\<close>

definition fetch_or_cache ::
  "'v cache \<Rightarrow> string \<Rightarrow> exn + 'v option \<Rightarrow> int option \<Rightarrow> datetime \<Rightarrow> datetime
     \<Rightarrow> (exn + 'v option) \<times> 'v cache" where
  "fetch_or_cache c key fetch_func ttl_seconds t_get t_set =
     (case get_cached c key ttl_seconds t_get of
        (Some cached, c1) \<Rightarrow> (Inr (Some cached), c1)
      | (None, c1) \<Rightarrow>
          (case fetch_func of
             Inl e \<Rightarrow> (Inl e, c1)
           | Inr data \<Rightarrow>
               (case set_cache c1 key data ttl_seconds t_set of
                  Inl e \<Rightarrow> (Inl e, c1)
                | Inr c2 \<Rightarrow> (Inr data, c2))))"

subsection \<open>Games and the streak\<close>

text \<open>One element of the list returned by \<open>get_recent_games\<close>, most recent game first.\<close>

record game =
  game_id :: string
  date :: string
  matchup :: string
  result :: string
  team_points :: int
  opponent_points :: int
  plus_minus :: int
  field_goal_pct :: real
  three_point_pct :: real
  rebounds :: int
  assists :: int
  turnovers :: int

record recent_record =
  rr_wins :: int
  rr_losses :: int

text \<open>
  The dictionary returned by \<open>get_team_win_streak\<close>; the key \<open>recent_record\<close> is missing
  when there are no games.
\<close>

record streak_info =
  streak_type :: string
  streak_length :: int
  recent_record :: "recent_record option"

text \<open>
  \<open>get_team_win_streak\<close>, as a function of \<open>games = self.get_recent_games(20)\<close>.
  \<open>streak = sum(1 if g['result'] == current else 0 for g in games)\<close> runs over the whole list.
\<close>

definition get_team_win_streak :: "game list \<Rightarrow> streak_info" where
  "get_team_win_streak games =
     (case games of
        [] \<Rightarrow> \<lparr>streak_type = ''unknown'', streak_length = 0, recent_record = None\<rparr>
      | g0 # _ \<Rightarrow>
          (let current = result g0;
               streak = (\<Sum>g\<leftarrow>games. if result g = current then 1 else 0);
               wins_10 = int (length (filter (\<lambda>g. result g = ''W'') (take 10 games)))
           in \<lparr>streak_type = (if current = ''W'' then ''winning'' else ''losing''),
               streak_length = streak,
               recent_record = Some \<lparr>rr_wins = wins_10, rr_losses = 10 - wins_10\<rparr>\<rparr>))"

subsection \<open>Statistics and rounding\<close>

text \<open>
  \<open>statistics.mean\<close> raises \<open>StatisticsError\<close> on no data, \<open>statistics.stdev\<close> (the sample
  standard deviation) on fewer than two data points.
\<close>

definition statistics_mean :: "real list \<Rightarrow> exn + real" where
  "statistics_mean data =
     (if length data < 1 then Inl StatisticsError
      else Inr (sum_list data / real (length data)))"

definition statistics_stdev :: "real list \<Rightarrow> exn + real" where
  "statistics_stdev data =
     (if length data < 2 then Inl StatisticsError
      else (let n = real (length data); m = sum_list data / n
            in Inr (sqrt ((\<Sum>x\<leftarrow>data. (x - m)\<^sup>2) / (n - 1)))))"

text \<open>
  \<open>round(x, ndigits)\<close>: to the nearest multiple of \<open>10 ** -ndigits\<close>, a tie to the even one.
  Python rounds the binary double that stands for \<open>x\<close>; where that double is not the
  decimal it prints as, the last digit can differ from the one computed here on the exact
  real (\<open>round(110.35, 1)\<close> is \<open>110.3\<close>).
\<close>

definition round_half_even :: "real \<Rightarrow> int" where
  "round_half_even x =
     (let f = \<lfloor>x\<rfloor>; d = x - of_int f
      in if d < 1 / 2 then f else if 1 / 2 < d then f + 1
         else if even f then f else f + 1)"

definition py_round :: "real \<Rightarrow> nat \<Rightarrow> real" where
  "py_round x ndigits = of_int (round_half_even (x * 10 ^ ndigits)) / 10 ^ ndigits"

subsection \<open>Trends and performance metrics\<close>

record scoring_trend =
  recent_avg :: real
  previous_avg :: real
  change :: real

record trends =
  trend :: string
  recent_win_rate :: real
  previous_win_rate :: real
  scoring_trend :: scoring_trend
  momentum :: string

text \<open>
  \<open>analyze_performance_trends\<close>, as a function of \<open>games = self.get_recent_games(20)\<close>.
  The result \<open>None\<close> is the empty dictionary. \<open>first_avg\<close> is computed before \<open>second_avg\<close>.
\<close>

definition analyze_performance_trends :: "game list \<Rightarrow> exn + trends option" where
  "analyze_performance_trends games =
     (if games = [] then Inr None
      else
        (let first = drop 10 games; second = take 10 games;
             first_wins = int (length (filter (\<lambda>g. result g = ''W'') first));
             second_wins = int (length (filter (\<lambda>g. result g = ''W'') second))
         in case statistics_mean (map (\<lambda>g. real_of_int (team_points g)) first) of
              Inl e \<Rightarrow> Inl e
            | Inr first_avg \<Rightarrow>
                (case statistics_mean (map (\<lambda>g. real_of_int (team_points g)) second) of
                   Inl e \<Rightarrow> Inl e
                 | Inr second_avg \<Rightarrow>
                     Inr (Some
                       \<lparr>trend = (if second_wins > first_wins then ''improving'' else ''declining''),
                        recent_win_rate = real_of_int second_wins / 10,
                        previous_win_rate = real_of_int first_wins / 10,
                        scoring_trend =
                          \<lparr>recent_avg = py_round second_avg 1,
                           previous_avg = py_round first_avg 1,
                           change = py_round (second_avg - first_avg) 1\<rparr>,
                        momentum =
                          (if second_wins > first_wins \<and> second_avg > first_avg
                           then ''positive'' else ''negative'')\<rparr>))))"

record PerformanceMetrics =
  win_rate :: real
  wins :: int
  losses :: int
  avg_points :: real
  avg_margin :: real
  avg_fg_pct :: real
  consistency :: string

text \<open>
  \<open>get_performance_metrics\<close>, as a function of \<open>games = self.get_recent_games(num_games)\<close>.
  The arguments of the constructor are evaluated in the order written.
\<close>

definition get_performance_metrics :: "game list \<Rightarrow> exn + PerformanceMetrics" where
  "get_performance_metrics games =
     (if games = [] then
        Inr \<lparr>win_rate = 0, wins = 0, losses = 0, avg_points = 0, avg_margin = 0,
             avg_fg_pct = 0, consistency = ''unknown''\<rparr>
      else
        (let wins = int (length (filter (\<lambda>g. result g = ''W'') games));
             points = map (\<lambda>g. real_of_int (team_points g)) games;
             margins = map (\<lambda>g. real_of_int (team_points g - opponent_points g)) games;
             fg_pcts = map field_goal_pct games
         in case statistics_mean points of
              Inl e \<Rightarrow> Inl e
            | Inr mean_points \<Rightarrow>
                (case statistics_mean margins of
                   Inl e \<Rightarrow> Inl e
                 | Inr mean_margin \<Rightarrow>
                     (case statistics_mean fg_pcts of
                        Inl e \<Rightarrow> Inl e
                      | Inr mean_fg \<Rightarrow>
                          (case statistics_stdev points of
                             Inl e \<Rightarrow> Inl e
                           | Inr sd \<Rightarrow>
                               Inr \<lparr>win_rate = py_round (real_of_int wins / real (length games)) 3,
                                    wins = wins,
                                    losses = int (length games) - wins,
                                    avg_points = py_round mean_points 1,
                                    avg_margin = py_round mean_margin 1,
                                    avg_fg_pct = py_round (mean_fg * 100) 1,
                                    consistency = (if sd < 8 then ''high'' else ''moderate'')\<rparr>)))))"

subsection \<open>Standings and competitive context\<close>

text \<open>A row of the table returned by \<open>LeagueStandings().get_data_frames()[0]\<close>.\<close>

record standings_row =
  TeamID :: int
  Conference :: string
  LeagueRank :: int
  WINS :: int
  LOSSES :: int
  WinPCT :: real
  ConferenceGamesBack :: real
  L10 :: string
  CurrentStreak :: string

record standings =
  conference :: string
  league_rank :: int
  wins :: int
  losses :: int
  win_pct :: real
  games_back :: real
  last_10 :: string
  streak :: string

text \<open>
  The loader \<open>fetch\<close> of \<open>get_standings\<close>. \<open>api\<close> is the outcome of the API call: an exception
  or the table. Every exception is caught and replaced by the empty dictionary (\<open>None\<close>).
\<close>

definition standings_fetch :: "int \<Rightarrow> exn + standings_row list \<Rightarrow> standings option" where
  "standings_fetch team_id api =
     (case api of
        Inl e \<Rightarrow> None
      | Inr df \<Rightarrow>
          (case filter (\<lambda>r. TeamID r = team_id) df of
             [] \<Rightarrow> None
           | s # _ \<Rightarrow>
               Some \<lparr>conference = Conference s, league_rank = LeagueRank s, wins = WINS s,
                     losses = LOSSES s, win_pct = WinPCT s,
                     games_back = ConferenceGamesBack s, last_10 = L10 s,
                     streak = CurrentStreak s\<rparr>))"

definition get_standings ::
  "int \<Rightarrow> exn + standings_row list \<Rightarrow> standings option cache \<Rightarrow> datetime \<Rightarrow> datetime
     \<Rightarrow> (exn + standings option option) \<times> standings option cache" where
  "get_standings team_id api c t_get t_set =
     fetch_or_cache c ''standings'' (Inr (Some (standings_fetch team_id api))) (Some 300)
       t_get t_set"

record CompetitiveContext =
  league_rank :: int
  competitive_tier :: string
  playoff_status :: string
  win_pct :: real
  games_back :: real

text \<open>
  The body of \<open>get_competitive_context\<close> after \<open>standings = self.get_standings()\<close>.
  \<open>not standings\<close> holds of \<open>None\<close> and of the empty dictionary.
\<close>

definition competitive_context :: "standings option option \<Rightarrow> CompetitiveContext" where
  "competitive_context st =
     (case st of
        Some (Some s) \<Rightarrow>
          (let rank = standings.league_rank s;
               (tier, status) =
                 (if rank \<le> 6 then (''championship_contender'', ''guaranteed'')
                  else if rank \<le> 10 then (''play_in_team'', ''likely'')
                  else (''rebuild_mode'', ''unlikely''))
           in \<lparr>league_rank = rank, competitive_tier = tier, playoff_status = status,
               win_pct = standings.win_pct s, games_back = standings.games_back s\<rparr>)
      | _ \<Rightarrow>
          \<lparr>league_rank = 15, competitive_tier = ''unknown'', playoff_status = ''unknown'',
           win_pct = 1 / 2, games_back = 0\<rparr>)"

definition get_competitive_context ::
  "int \<Rightarrow> exn + standings_row list \<Rightarrow> standings option cache \<Rightarrow> datetime \<Rightarrow> datetime
     \<Rightarrow> (exn + CompetitiveContext) \<times> standings option cache" where
  "get_competitive_context team_id api c t_get t_set =
     (case get_standings team_id api c t_get t_set of
        (Inl e, c') \<Rightarrow> (Inl e, c')
      | (Inr st, c') \<Rightarrow> (Inr (competitive_context st), c'))"

subsection \<open>Momentum score\<close>

record momentum_result =
  score :: real
  sentiment :: string
  trend :: string

text \<open>
  The body of \<open>calculate_momentum_score\<close> after its two calls: \<open>tr\<close> is the dictionary
  returned by \<open>analyze_performance_trends\<close> (\<open>None\<close> if empty), \<open>sk\<close> the one returned by
  \<open>get_team_win_streak\<close>.
\<close>

definition momentum_score :: "trends option \<Rightarrow> streak_info \<Rightarrow> momentum_result" where
  "momentum_score tr sk =
     (let score0 = 50 + ((case tr of None \<Rightarrow> 1 / 2 | Some t \<Rightarrow> recent_win_rate t) - 1 / 2) * 60;
          streak_len = real_of_int (streak_length sk);
          score1 = score0 + (if streak_type sk = ''winning''
                             then min (streak_len * 3) 20 else - min (streak_len * 3) 20);
          score2 = score1 + (case tr of
                               None \<Rightarrow> 0
                             | Some t \<Rightarrow> if momentum t = ''positive'' then 10
                                         else if momentum t = ''negative'' then - 10 else 0);
          score3 = max 0 (min 100 score2);
          sentiment = (if score3 \<ge> 75 then ''excellent'' else if score3 \<ge> 60 then ''positive''
                       else if score3 \<ge> 40 then ''neutral'' else ''concerning'')
      in \<lparr>score = py_round score3 1, sentiment = sentiment,
          trend = (case tr of None \<Rightarrow> ''stable'' | Some t \<Rightarrow> trends.trend t)\<rparr>)"

text \<open>
  \<open>calculate_momentum_score\<close>. Its two reads of \<open>get_recent_games(20)\<close> are two parameters:
  the cached list may be reloaded between them.
\<close>

definition calculate_momentum_score :: "game list \<Rightarrow> game list \<Rightarrow> exn + momentum_result" where
  "calculate_momentum_score games_trends games_streak =
     (case analyze_performance_trends games_trends of
        Inl e \<Rightarrow> Inl e
      | Inr tr \<Rightarrow> Inr (momentum_score tr (get_team_win_streak games_streak)))"

subsection \<open>Top performers\<close>

record roster_entry =
  player_id :: int
  player_name :: string
  position :: string
  jersey_number :: string
  age :: real
  experience :: string

text \<open>A row of a player's game log, most recent game first.\<close>

record log_row =
  PTS :: int
  AST :: int
  REB :: int

text \<open>A float that may be NaN: the mean of an empty pandas column is NaN, not an exception.\<close>

datatype pyfloat = NaN | Fin real

fun py_lt :: "pyfloat \<Rightarrow> pyfloat \<Rightarrow> bool" where
  "py_lt (Fin a) (Fin b) = (a < b)"
| "py_lt _ _ = False"

definition series_mean :: "int list \<Rightarrow> pyfloat" where
  "series_mean xs =
     (if xs = [] then NaN else Fin (real_of_int (sum_list xs) / real (length xs)))"

fun round_float :: "pyfloat \<Rightarrow> nat \<Rightarrow> pyfloat" where
  "round_float NaN ndigits = NaN"
| "round_float (Fin x) ndigits = Fin (py_round x ndigits)"

record performer =
  player_name :: string
  position :: string
  avg_points :: pyfloat
  avg_assists :: pyfloat
  avg_rebounds :: pyfloat

text \<open>
  The dictionary appended for a player whose log is not empty; \<open>recent = df.head(num_games)\<close>.
\<close>

definition performer_entry :: "roster_entry \<Rightarrow> log_row list \<Rightarrow> performer" where
  "performer_entry player recent =
     \<lparr>player_name = roster_entry.player_name player,
      position = roster_entry.position player,
      avg_points = round_float (series_mean (map PTS recent)) 1,
      avg_assists = round_float (series_mean (map AST recent)) 1,
      avg_rebounds = round_float (series_mean (map REB recent)) 1\<rparr>"

text \<open>
  The loop \<open>for player in roster[:10]\<close> of \<open>get_top_performers\<close>, with the list \<open>performers\<close>
  built so far. \<open>player_log\<close> is the outcome of the API call for a player id; an exception
  in the loop body is caught and the player skipped, as is a player with an empty log.
  \<open>df.head(num_games)\<close> is \<open>take num_games\<close> for a window that is a natural number.
\<close>

fun collect_performers ::
  "(int \<Rightarrow> exn + log_row list) \<Rightarrow> nat \<Rightarrow> roster_entry list \<Rightarrow> performer list
     \<Rightarrow> performer list" where
  "collect_performers player_log num_games [] performers = performers"
| "collect_performers player_log num_games (player # rest) performers =
     (case player_log (player_id player) of
        Inl e \<Rightarrow> collect_performers player_log num_games rest performers
      | Inr df \<Rightarrow>
          if df \<noteq> [] then
            collect_performers player_log num_games rest
              (performers @ [performer_entry player (take num_games df)])
          else collect_performers player_log num_games rest performers)"

text \<open>
  \<open>sorted(xs, key=k, reverse=True)\<close>. Python's sort compares keys with \<open><\<close> only and is
  stable, also under \<open>reverse=True\<close>. The model is a stable insertion sort with that
  comparison. It returns the list Python returns when \<open><\<close> orders the keys present (none
  is NaN) and when every key is NaN (each comparison is false and the list comes back as
  it is); a window of 0 games makes every average NaN, a positive window none.
\<close>

fun insert_reverse :: "('a \<Rightarrow> pyfloat) \<Rightarrow> 'a \<Rightarrow> 'a list \<Rightarrow> 'a list" where
  "insert_reverse k x [] = [x]"
| "insert_reverse k x (y # ys) =
     (if py_lt (k x) (k y) then y # insert_reverse k x ys else x # y # ys)"

fun sorted_reverse :: "('a \<Rightarrow> pyfloat) \<Rightarrow> 'a list \<Rightarrow> 'a list" where
  "sorted_reverse k [] = []"
| "sorted_reverse k (x # xs) = insert_reverse k x (sorted_reverse k xs)"

text \<open>
  The loader \<open>fetch\<close> of \<open>get_top_performers\<close>, as a function of
  \<open>roster = self.get_team_roster()\<close> and of the players' logs.
\<close>

definition top_performers_fetch ::
  "roster_entry list \<Rightarrow> (int \<Rightarrow> exn + log_row list) \<Rightarrow> nat \<Rightarrow> performer list" where
  "top_performers_fetch roster player_log num_games =
     take 5 (sorted_reverse performer.avg_points
               (collect_performers player_log num_games (take 10 roster) []))"

text \<open>
  The description of one roster player, for comparison with the loop: no entry when the
  log fetch fails or the log is empty, otherwise the entry over the window.
\<close>

definition candidate ::
  "(int \<Rightarrow> exn + log_row list) \<Rightarrow> nat \<Rightarrow> roster_entry \<Rightarrow> performer list" where
  "candidate player_log n p =
     (case player_log (player_id p) of
        Inl e \<Rightarrow> []
      | Inr df \<Rightarrow> if df = [] then [] else [performer_entry p (take n df)])"

subsection \<open>Concrete inputs\<close>

text \<open>A game with the given result and score; the other fields are fixed.\<close>

definition a_game :: "string \<Rightarrow> int \<Rightarrow> int \<Rightarrow> game" where
  "a_game r pts opp =
     \<lparr>game_id = ''0022500001'', date = ''2025-11-01'', matchup = ''LAL vs. BOS'',
      result = r, team_points = pts, opponent_points = opp, plus_minus = pts - opp,
      field_goal_pct = 45 / 100, three_point_pct = 35 / 100, rebounds = 40,
      assists = 25, turnovers = 12\<rparr>"

text \<open>Ten wins by 110 points, most recent first, after an older win by 90 points.\<close>

definition eleven_wins :: "game list" where
  "eleven_wins =
     [a_game ''W'' 110 100, a_game ''W'' 110 100, a_game ''W'' 110 100, a_game ''W'' 110 100,
      a_game ''W'' 110 100, a_game ''W'' 110 100, a_game ''W'' 110 100, a_game ''W'' 110 100,
      a_game ''W'' 110 100, a_game ''W'' 110 100, a_game ''W'' 90 80]"

text \<open>
  A loss, six wins and three losses, most recent first, after an older win with fewer
  points.
\<close>

definition six_wins_four_losses :: "game list" where
  "six_wins_four_losses =
     [a_game ''L'' 90 105, a_game ''W'' 110 100, a_game ''W'' 110 100, a_game ''W'' 110 100,
      a_game ''W'' 110 100, a_game ''W'' 110 100, a_game ''W'' 110 100, a_game ''L'' 90 105,
      a_game ''L'' 90 105, a_game ''L'' 90 105, a_game ''W'' 80 70]"

text \<open>A standings dictionary with the given league rank.\<close>

definition a_standings :: "int \<Rightarrow> standings" where
  "a_standings rank =
     \<lparr>conference = ''West'', league_rank = rank, wins = 30, losses = 20, win_pct = 6 / 10,
      games_back = 5 / 2, last_10 = ''6-4'', streak = ''W 2''\<rparr>"

text \<open>
  Twelve players: the log of player 2 cannot be fetched, that of player 3 is empty,
  players 1 and 5 both average 15 points over a window of two games.
\<close>

definition a_player :: "int \<Rightarrow> string \<Rightarrow> roster_entry" where
  "a_player pid name =
     \<lparr>player_id = pid, player_name = name, position = ''G'', jersey_number = ''0'',
      age = 25, experience = ''3''\<rparr>"

definition a_row :: "int \<Rightarrow> log_row" where
  "a_row pts = \<lparr>PTS = pts, AST = 4, REB = 6\<rparr>"

definition example_roster :: "roster_entry list" where
  "example_roster =
     [a_player 1 ''P1'', a_player 2 ''P2'', a_player 3 ''P3'', a_player 4 ''P4'',
      a_player 5 ''P5'', a_player 6 ''P6'', a_player 7 ''P7'', a_player 8 ''P8'',
      a_player 9 ''P9'', a_player 10 ''P10'', a_player 11 ''P11'', a_player 12 ''P12'']"

definition example_logs :: "int \<Rightarrow> exn + log_row list" where
  "example_logs pid =
     (if pid = 1 then Inr [a_row 10, a_row 20, a_row 50]
      else if pid = 2 then Inl ProviderError
      else if pid = 3 then Inr []
      else if pid = 4 then Inr [a_row 30]
      else if pid = 5 then Inr [a_row 15]
      else if pid = 7 then Inr [a_row 25, a_row 25]
      else if pid = 11 then Inr [a_row 99]
      else Inr [a_row (pid - 5)])"

section \<open>Theorems\<close>

subsection \<open>The streak\<close>

text \<open>
  C1. The streak is claimed to be the number of consecutive games, from the most recent
  one, with the most recent game's result, so that W,W,W,L,W gives a winning streak of 3.
  The code counts every game of the list with that result: on W,W,W,L,W, where the
  leading run of wins has length 3, it returns a winning streak of length 4.
\<close>

theorem streak_counts_all_matching_games:
  "streak_type (get_team_win_streak
       [a_game ''W'' 110 100, a_game ''W'' 120 101, a_game ''W'' 99 98,
        a_game ''L'' 90 105, a_game ''W'' 101 100]) = ''winning''
   \<and> streak_length (get_team_win_streak
       [a_game ''W'' 110 100, a_game ''W'' 120 101, a_game ''W'' 99 98,
        a_game ''L'' 90 105, a_game ''W'' 101 100]) = 4
   \<and> length (takeWhile (\<lambda>g. result g = ''W'')
       [a_game ''W'' 110 100, a_game ''W'' 120 101, a_game ''W'' 99 98,
        a_game ''L'' 90 105, a_game ''W'' 101 100]) = 3"
  by (simp add: get_team_win_streak_def a_game_def)

text \<open>In general the length returned is the number of games with the first game's result.\<close>

lemma streak_length_counts_matches:
  "streak_length (get_team_win_streak (g # gs))
     = int (length (filter (\<lambda>x. result x = result g) (g # gs)))"
proof -
  have "(\<Sum>x\<leftarrow>xs. if result x = r then 1 else 0) = int (length (filter (\<lambda>x. result x = r) xs))"
    for xs :: "game list" and r
    by (induction xs) simp_all
  then show ?thesis
    by (simp add: get_team_win_streak_def Let_def)
qed

subsection \<open>The cache\<close>

lemma get_cached_miss_no_data:
  assumes "fst (get_cached c key ttl t) = None"
  shows "\<forall>d x. snd (get_cached c key ttl t) key \<noteq> Some (Some d, x)"
  using assms by (auto simp: get_cached_def split: option.splits if_splits)

lemma get_cached_miss_again:
  assumes "fst (get_cached c key ttl t) = None"
  shows "fst (get_cached (snd (get_cached c key ttl t)) key ttl t') = None"
  using assms by (auto simp: get_cached_def split: option.splits if_splits)

text \<open>
  C2, as the code contradicts it. The API call of \<open>get_standings\<close> fails on an empty
  cache: the caller is given the empty dictionary, not a failure; the empty dictionary is
  cached under \<open>standings\<close> for 300 seconds; and one second later, when the API would
  answer with a row for the team, the call is served the cached empty dictionary.
\<close>

theorem standings_failure_is_cached:
  "get_standings 1610612747 (Inl ProviderError) Map.empty 0 0
     = (Inr (Some None), [''standings'' \<mapsto> (Some None, 300000000)])
   \<and> fst (get_standings 1610612747
            (Inr [\<lparr>TeamID = 1610612747, Conference = ''West'', LeagueRank = 3, WINS = 10,
                   LOSSES = 2, WinPCT = 833 / 1000, ConferenceGamesBack = 0,
                   L10 = ''8-2'', CurrentStreak = ''W 3''\<rparr>])
            [''standings'' \<mapsto> (Some None, 300000000)] 1000000 1000000)
     = Inr (Some None)"
  by (simp add: get_standings_def fetch_or_cache_def get_cached_def set_cache_def
        add_seconds_def datetime_max_def standings_fetch_def)

text \<open>
  C2, amended. When the loader passed to \<open>_fetch_or_cache\<close> raises (on a miss, where it is
  run), the exception reaches the caller, the cache holds no data under the key, and the
  next call for the key runs its loader again: it raises what that loader raises, and
  returns what it loads when the entry can be stored. The loader of \<open>get_standings\<close> does
  not raise when the API call fails: it returns the empty dictionary, which is cached for
  300 seconds and served to every call before that expiry, whatever the API would answer.
\<close>

theorem raising_loader_not_cached_swallowed_failure_cached:
  fixes c :: "'v cache" and cs :: "standings option cache"
  assumes miss: "fst (get_cached c key ttl t1) = None"
      and miss_s: "fst (get_cached cs ''standings'' (Some 300) t1) = None"
      and range: "0 \<le> t2" "t2 + 300000000 \<le> datetime_max"
      and within: "t3 < t2 + 300000000"
  shows "fetch_or_cache c key (Inl e) ttl t1 t2 = (Inl e, snd (get_cached c key ttl t1))
       \<and> (\<forall>d x. snd (get_cached c key ttl t1) key \<noteq> Some (Some d, x))
       \<and> fst (fetch_or_cache (snd (get_cached c key ttl t1)) key (Inl e') ttl t3 t4) = Inl e'
       \<and> (\<forall>c2. set_cache (snd (get_cached (snd (get_cached c key ttl t1)) key ttl t3))
                   key d ttl t4 = Inr c2 \<longrightarrow>
            fetch_or_cache (snd (get_cached c key ttl t1)) key (Inr d) ttl t3 t4 = (Inr d, c2))
       \<and> get_standings team_id (Inl e) cs t1 t2
           = (Inr (Some None),
              (snd (get_cached cs ''standings'' (Some 300) t1))
                (''standings'' \<mapsto> (Some None, t2 + 300000000)))
       \<and> fst (get_standings team_id api (snd (get_standings team_id (Inl e) cs t1 t2)) t3 t4)
           = Inr (Some None)"
proof -
  let ?c1 = "snd (get_cached c key ttl t1)"
  have g1: "get_cached c key ttl t1 = (None, ?c1)"
    using miss by (simp add: prod_eq_iff)
  have a: "fetch_or_cache c key (Inl e) ttl t1 t2 = (Inl e, ?c1)"
    unfolding fetch_or_cache_def by (subst g1) simp
  have b: "\<forall>d x. ?c1 key \<noteq> Some (Some d, x)"
    using miss by (rule get_cached_miss_no_data)
  have "fst (get_cached ?c1 key ttl t3) = None"
    using miss by (rule get_cached_miss_again)
  then have g3: "get_cached ?c1 key ttl t3 = (None, snd (get_cached ?c1 key ttl t3))"
    by (simp add: prod_eq_iff)
  have c: "fst (fetch_or_cache ?c1 key (Inl e') ttl t3 t4) = Inl e'"
    unfolding fetch_or_cache_def by (subst g3) simp
  have d: "\<forall>c2. set_cache (snd (get_cached ?c1 key ttl t3)) key d ttl t4 = Inr c2 \<longrightarrow>
            fetch_or_cache ?c1 key (Inr d) ttl t3 t4 = (Inr d, c2)"
    unfolding fetch_or_cache_def by (subst g3) simp
  let ?s1 = "snd (get_cached cs ''standings'' (Some 300) t1)"
  have gs: "get_cached cs ''standings'' (Some 300) t1 = (None, ?s1)"
    using miss_s by (simp add: prod_eq_iff)
  have st: "set_cache ?s1 ''standings'' (Some None) (Some 300) t2
              = Inr (?s1(''standings'' \<mapsto> (Some None, t2 + 300000000)))"
    using range by (simp add: set_cache_def add_seconds_def)
  have f: "get_standings team_id (Inl e) cs t1 t2
           = (Inr (Some None), ?s1(''standings'' \<mapsto> (Some None, t2 + 300000000)))"
    unfolding get_standings_def fetch_or_cache_def by (subst gs) (simp add: st standings_fetch_def)
  have g: "fst (get_standings team_id api (snd (get_standings team_id (Inl e) cs t1 t2)) t3 t4)
           = Inr (Some None)"
    using within by (simp add: f) (simp add: get_standings_def fetch_or_cache_def get_cached_def)
  from a b c d f g show ?thesis by blast
qed

text \<open>
  The amended C2 at concrete inputs: a failing roster load on an empty cache and a retry
  six seconds later, and a failing standings call followed by a call that is served the
  cached empty dictionary.
\<close>

theorem raising_loader_not_cached_swallowed_failure_cached_witness:
  "fst (get_cached (Map.empty :: nat cache) ''roster'' (Some 3600) 0) = None
   \<and> fst (get_cached (Map.empty :: standings option cache) ''standings'' (Some 300) 0) = None
   \<and> (0::int) \<le> 5000000 \<and> 5000000 + 300000000 \<le> datetime_max
   \<and> (6000000::int) < 5000000 + 300000000
   \<and> fetch_or_cache (Map.empty :: nat cache) ''roster'' (Inl ProviderError) (Some 3600) 0 5000000
       = (Inl ProviderError, Map.empty)
   \<and> fetch_or_cache (Map.empty :: nat cache) ''roster'' (Inr (Some 4)) (Some 3600) 6000000 7000000
       = (Inr (Some 4), [''roster'' \<mapsto> (Some 4, 3607000000)])
   \<and> get_standings 1610612747 (Inl ProviderError) Map.empty 0 5000000
       = (Inr (Some None), [''standings'' \<mapsto> (Some None, 305000000)])
   \<and> fst (get_standings 1610612747 (Inr []) [''standings'' \<mapsto> (Some None, 305000000)]
            6000000 7000000) = Inr (Some None)"
proof -
  have h1: "fst (get_cached (Map.empty :: nat cache) ''roster'' (Some 3600) 0) = None"
    by (simp add: get_cached_def)
  have h2: "fst (get_cached (Map.empty :: standings option cache) ''standings'' (Some 300) 0) = None"
    by (simp add: get_cached_def)
  have h3: "(0::int) \<le> 5000000" by simp
  have h4: "5000000 + 300000000 \<le> datetime_max" by (simp add: datetime_max_def)
  have h5: "(6000000::int) < 5000000 + 300000000" by simp
  have s: "snd (get_cached (Map.empty :: nat cache) ''roster'' (Some 3600) t) = Map.empty" for t
    by (simp add: get_cached_def)
  have s2: "snd (get_cached (Map.empty :: standings option cache) ''standings'' (Some 300) 0) = Map.empty"
    by (simp add: get_cached_def)
  have sc: "set_cache (Map.empty :: nat cache) ''roster'' (Some 4) (Some 3600) 7000000
              = Inr [''roster'' \<mapsto> (Some 4, 3607000000)]"
    by (simp add: set_cache_def add_seconds_def datetime_max_def)
  note t = raising_loader_not_cached_swallowed_failure_cached
             [OF h1 h2 h3 h4 h5, of ProviderError ProviderError 7000000 "Some 4"
                1610612747 "Inr []", unfolded s s2]
  from t have a: "fetch_or_cache (Map.empty :: nat cache) ''roster'' (Inl ProviderError)
                    (Some 3600) 0 5000000 = (Inl ProviderError, Map.empty)"
    by blast
  from t sc have b: "fetch_or_cache (Map.empty :: nat cache) ''roster'' (Inr (Some 4))
                    (Some 3600) 6000000 7000000
                  = (Inr (Some 4), [''roster'' \<mapsto> (Some 4, 3607000000)])"
    by blast
  from t have c: "get_standings 1610612747 (Inl ProviderError) Map.empty 0 5000000
       = (Inr (Some None), [''standings'' \<mapsto> (Some None, 305000000)])"
    by simp
  from t have "fst (get_standings 1610612747 (Inr [])
          (snd (get_standings 1610612747 (Inl ProviderError) Map.empty 0 5000000))
            6000000 7000000) = Inr (Some None)"
    by blast
  then have d: "fst (get_standings 1610612747 (Inr []) [''standings'' \<mapsto> (Some None, 305000000)]
            6000000 7000000) = Inr (Some None)"
    unfolding c by simp
  from h1 h2 h3 h4 h5 a b c d show ?thesis by blast
qed

text \<open>
  C6. An entry stored at \<open>t0\<close> with a TTL of \<open>T\<close> seconds, for every TTL other than 0
  (the program passes 300, 3600 and 86400), has expiry \<open>t0 + T\<close>; a read with that TTL
  returns the value as stored, and leaves the cache as it is, at every time \<open>t\<close> with
  \<open>t - t0 < T\<close>, and reports the entry absent and deletes it at every time \<open>t\<close> with
  \<open>t - t0 \<ge> T\<close>. Times are in microseconds, so \<open>T\<close> seconds are \<open>T * 1000000\<close>.
\<close>

theorem ttl_expiry:
  assumes "T \<noteq> 0" and "set_cache c key v (Some T) t0 = Inr c'"
  shows "c' = c(key \<mapsto> (v, t0 + T * 1000000))
       \<and> (t - t0 < T * 1000000 \<longrightarrow> get_cached c' key (Some T) t = (v, c'))
       \<and> (t - t0 \<ge> T * 1000000 \<longrightarrow> get_cached c' key (Some T) t = (None, c'(key := None)))"
  using assms
  by (auto simp: set_cache_def get_cached_def add_seconds_def Let_def split: if_splits)

text \<open>
  C6 at the three TTLs of the program, each stored at second 1: read one microsecond
  before its expiry and at its expiry.
\<close>

theorem ttl_expiry_witness:
  "(300 :: int) \<noteq> 0
   \<and> set_cache (Map.empty :: nat cache) ''standings'' (Some 7) (Some 300) 1000000
       = Inr [''standings'' \<mapsto> (Some 7, 301000000)]
   \<and> get_cached [''standings'' \<mapsto> (Some (7::nat), 301000000)] ''standings'' (Some 300) 300999999
       = (Some 7, [''standings'' \<mapsto> (Some 7, 301000000)])
   \<and> get_cached [''standings'' \<mapsto> (Some (7::nat), 301000000)] ''standings'' (Some 300) 301000000
       = (None, Map.empty)
   \<and> (3600 :: int) \<noteq> 0
   \<and> set_cache (Map.empty :: nat cache) ''roster'' (Some 7) (Some 3600) 1000000
       = Inr [''roster'' \<mapsto> (Some 7, 3601000000)]
   \<and> get_cached [''roster'' \<mapsto> (Some (7::nat), 3601000000)] ''roster'' (Some 3600) 3600999999
       = (Some 7, [''roster'' \<mapsto> (Some 7, 3601000000)])
   \<and> get_cached [''roster'' \<mapsto> (Some (7::nat), 3601000000)] ''roster'' (Some 3600) 3601000000
       = (None, Map.empty)
   \<and> (86400 :: int) \<noteq> 0
   \<and> set_cache (Map.empty :: nat cache) ''details'' (Some 7) (Some 86400) 1000000
       = Inr [''details'' \<mapsto> (Some 7, 86401000000)]
   \<and> get_cached [''details'' \<mapsto> (Some (7::nat), 86401000000)] ''details'' (Some 86400) 86400999999
       = (Some 7, [''details'' \<mapsto> (Some 7, 86401000000)])
   \<and> get_cached [''details'' \<mapsto> (Some (7::nat), 86401000000)] ''details'' (Some 86400) 86401000000
       = (None, Map.empty)"
proof -
  have n: "(300 :: int) \<noteq> 0" "(3600 :: int) \<noteq> 0" "(86400 :: int) \<noteq> 0" by simp_all
  have s1: "set_cache (Map.empty :: nat cache) ''standings'' (Some 7) (Some 300) 1000000
       = Inr [''standings'' \<mapsto> (Some 7, 301000000)]"
    by (simp add: set_cache_def add_seconds_def datetime_max_def)
  have s2: "set_cache (Map.empty :: nat cache) ''roster'' (Some 7) (Some 3600) 1000000
       = Inr [''roster'' \<mapsto> (Some 7, 3601000000)]"
    by (simp add: set_cache_def add_seconds_def datetime_max_def)
  have s3: "set_cache (Map.empty :: nat cache) ''details'' (Some 7) (Some 86400) 1000000
       = Inr [''details'' \<mapsto> (Some 7, 86401000000)]"
    by (simp add: set_cache_def add_seconds_def datetime_max_def)
  have a1: "get_cached [''standings'' \<mapsto> (Some (7::nat), 301000000)] ''standings'' (Some 300) 300999999
       = (Some 7, [''standings'' \<mapsto> (Some 7, 301000000)])"
    using ttl_expiry [OF n(1) s1, of 300999999] by simp
  have b1: "get_cached [''standings'' \<mapsto> (Some (7::nat), 301000000)] ''standings'' (Some 300) 301000000
       = (None, Map.empty)"
    using ttl_expiry [OF n(1) s1, of 301000000] by simp
  have a2: "get_cached [''roster'' \<mapsto> (Some (7::nat), 3601000000)] ''roster'' (Some 3600) 3600999999
       = (Some 7, [''roster'' \<mapsto> (Some 7, 3601000000)])"
    using ttl_expiry [OF n(2) s2, of 3600999999] by simp
  have b2: "get_cached [''roster'' \<mapsto> (Some (7::nat), 3601000000)] ''roster'' (Some 3600) 3601000000
       = (None, Map.empty)"
    using ttl_expiry [OF n(2) s2, of 3601000000] by simp
  have a3: "get_cached [''details'' \<mapsto> (Some (7::nat), 86401000000)] ''details'' (Some 86400) 86400999999
       = (Some 7, [''details'' \<mapsto> (Some 7, 86401000000)])"
    using ttl_expiry [OF n(3) s3, of 86400999999] by simp
  have b3: "get_cached [''details'' \<mapsto> (Some (7::nat), 86401000000)] ''details'' (Some 86400) 86401000000
       = (None, Map.empty)"
    using ttl_expiry [OF n(3) s3, of 86401000000] by simp
  from n s1 s2 s3 a1 b1 a2 b2 a3 b3 show ?thesis by blast
qed

text \<open>
  No call site passes a TTL of 0. A direct call of \<open>_set_cache\<close> with 0 takes the branch
  of \<open>None\<close>: the entry is stored with expiry \<open>datetime.max\<close> and a read with TTL 0 returns it.
\<close>

lemma ttl_zero_stored_as_permanent:
  "set_cache (Map.empty :: nat cache) ''games_10'' (Some 7) (Some 0) 1000000
     = Inr [''games_10'' \<mapsto> (Some 7, datetime_max)]
   \<and> get_cached [''games_10'' \<mapsto> (Some (7::nat), datetime_max)] ''games_10'' (Some 0) 2000000
     = (Some 7, [''games_10'' \<mapsto> (Some 7, datetime_max)])"
  by (simp add: set_cache_def get_cached_def datetime_max_def)

text \<open>
  Calls one after another: a load on a miss with a nonzero TTL stores the value, and a
  call before the expiry returns it whatever its own loader would do.
\<close>

lemma sequential_calls_load_once:
  assumes miss: "fst (get_cached c key (Some T) t1) = None"
      and nonzero: "T \<noteq> 0"
      and range: "0 \<le> t2 + T * 1000000" "t2 + T * 1000000 \<le> datetime_max"
      and within: "t3 < t2 + T * 1000000"
  shows "fetch_or_cache c key (Inr (Some v)) (Some T) t1 t2
           = (Inr (Some v), (snd (get_cached c key (Some T) t1))
                              (key \<mapsto> (Some v, t2 + T * 1000000)))
       \<and> fetch_or_cache (snd (fetch_or_cache c key (Inr (Some v)) (Some T) t1 t2)) key
           loader (Some T) t3 t4
           = (Inr (Some v), snd (fetch_or_cache c key (Inr (Some v)) (Some T) t1 t2))"
proof -
  let ?c1 = "snd (get_cached c key (Some T) t1)"
  have g1: "get_cached c key (Some T) t1 = (None, ?c1)"
    using miss by (simp add: prod_eq_iff)
  have st: "set_cache ?c1 key (Some v) (Some T) t2
              = Inr (?c1(key \<mapsto> (Some v, t2 + T * 1000000)))"
    using nonzero range by (simp add: set_cache_def add_seconds_def)
  have first: "fetch_or_cache c key (Inr (Some v)) (Some T) t1 t2
           = (Inr (Some v), ?c1(key \<mapsto> (Some v, t2 + T * 1000000)))"
    unfolding fetch_or_cache_def by (subst g1) (simp add: st)
  have "fetch_or_cache (?c1(key \<mapsto> (Some v, t2 + T * 1000000))) key loader (Some T) t3 t4
           = (Inr (Some v), ?c1(key \<mapsto> (Some v, t2 + T * 1000000)))"
    using within by (simp add: fetch_or_cache_def get_cached_def)
  with first show ?thesis by simp
qed

subsection \<open>Trends and metrics\<close>

text \<open>
  C3. Trend analysis on fewer than 20 games is claimed to return a result, also on 1 to
  10 games. On one game the older half \<open>games[10:]\<close> is empty and the code raises
  \<open>StatisticsError\<close> from \<open>statistics.mean\<close>.
\<close>

theorem trends_fail_on_one_game:
  "analyze_performance_trends [a_game ''W'' 110 100] = Inl StatisticsError"
  by (simp add: analyze_performance_trends_def statistics_mean_def)

text \<open>The same on every list of 1 to 10 games; from 11 games on a result is returned.\<close>

lemma trends_fail_up_to_ten_games:
  "games \<noteq> [] \<Longrightarrow> length games \<le> 10 \<Longrightarrow> analyze_performance_trends games = Inl StatisticsError"
  by (simp add: analyze_performance_trends_def statistics_mean_def)

lemma trends_return_from_eleven_games:
  "10 < length games \<Longrightarrow> \<exists>t. analyze_performance_trends games = Inr (Some t)"
  by (auto simp add: analyze_performance_trends_def statistics_mean_def Let_def)

text \<open>
  C10. On a list of exactly one game \<open>get_performance_metrics\<close> raises \<open>StatisticsError\<close>
  (the sample standard deviation needs two data points); it raises on no other list,
  and the empty list is the one input answered by the zero-valued default.
\<close>

theorem metrics_fail_on_exactly_one_game:
  "get_performance_metrics [g] = Inl StatisticsError
   \<and> (get_performance_metrics games = Inl StatisticsError \<longleftrightarrow> length games = 1)
   \<and> get_performance_metrics [] =
       Inr \<lparr>win_rate = 0, wins = 0, losses = 0, avg_points = 0, avg_margin = 0,
            avg_fg_pct = 0, consistency = ''unknown''\<rparr>"
proof -
  have one: "get_performance_metrics [g] = Inl StatisticsError" for g
    by (simp add: get_performance_metrics_def statistics_mean_def statistics_stdev_def)
  have "get_performance_metrics games \<noteq> Inl StatisticsError" if "length games \<noteq> 1"
  proof (cases "games = []")
    case True then show ?thesis by (simp add: get_performance_metrics_def)
  next
    case False
    with that have "2 \<le> length games" by (cases games) (auto simp: Suc_le_eq)
    with False show ?thesis
      by (simp add: get_performance_metrics_def statistics_mean_def statistics_stdev_def Let_def)
  qed
  moreover have "get_performance_metrics games = Inl StatisticsError" if "length games = 1"
  proof -
    from that obtain g where "games = [g]" by (cases games) auto
    then show ?thesis using one by simp
  qed
  ultimately have iff: "get_performance_metrics games = Inl StatisticsError \<longleftrightarrow> length games = 1"
    by blast
  have empty: "get_performance_metrics [] =
       Inr \<lparr>win_rate = 0, wins = 0, losses = 0, avg_points = 0, avg_margin = 0,
            avg_fg_pct = 0, consistency = ''unknown''\<rparr>"
    by (simp add: get_performance_metrics_def)
  from one [of g] iff empty show ?thesis by blast
qed

subsection \<open>Competitive context\<close>

text \<open>
  C5. With a standings dictionary cached and not expired, \<open>get_competitive_context\<close>
  returns the context computed from it and leaves the cache as it is; the tier is
  \<open>championship_contender\<close> (\<open>guaranteed\<close>) for a league rank up to 6, \<open>play_in_team\<close>
  (\<open>likely\<close>) for ranks 7 to 10 and \<open>rebuild_mode\<close> (\<open>unlikely\<close>) from rank 11 on.
\<close>

theorem competitive_tier_thresholds:
  assumes "c ''standings'' = Some (Some (Some s), expiry)" and "t_get < expiry"
  shows "get_competitive_context team_id api c t_get t_set
           = (Inr (competitive_context (Some (Some s))), c)
       \<and> CompetitiveContext.league_rank (competitive_context (Some (Some s)))
           = standings.league_rank s
       \<and> (standings.league_rank s \<le> 6 \<longrightarrow>
            competitive_tier (competitive_context (Some (Some s))) = ''championship_contender''
            \<and> playoff_status (competitive_context (Some (Some s))) = ''guaranteed'')
       \<and> (7 \<le> standings.league_rank s \<and> standings.league_rank s \<le> 10 \<longrightarrow>
            competitive_tier (competitive_context (Some (Some s))) = ''play_in_team''
            \<and> playoff_status (competitive_context (Some (Some s))) = ''likely'')
       \<and> (11 \<le> standings.league_rank s \<longrightarrow>
            competitive_tier (competitive_context (Some (Some s))) = ''rebuild_mode''
            \<and> playoff_status (competitive_context (Some (Some s))) = ''unlikely'')"
proof -
  have "get_cached c ''standings'' (Some 300) t_get = (Some (Some s), c)"
    using assms by (simp add: get_cached_def)
  then have "get_competitive_context team_id api c t_get t_set
           = (Inr (competitive_context (Some (Some s))), c)"
    by (simp add: get_competitive_context_def get_standings_def fetch_or_cache_def)
  moreover have "CompetitiveContext.league_rank (competitive_context (Some (Some s)))
           = standings.league_rank s"
    by (simp add: competitive_context_def Let_def split: prod.splits)
  moreover have "standings.league_rank s \<le> 6 \<longrightarrow>
            competitive_tier (competitive_context (Some (Some s))) = ''championship_contender''
            \<and> playoff_status (competitive_context (Some (Some s))) = ''guaranteed''"
    by (simp add: competitive_context_def)
  moreover have "7 \<le> standings.league_rank s \<and> standings.league_rank s \<le> 10 \<longrightarrow>
            competitive_tier (competitive_context (Some (Some s))) = ''play_in_team''
            \<and> playoff_status (competitive_context (Some (Some s))) = ''likely''"
    by (simp add: competitive_context_def)
  moreover have "11 \<le> standings.league_rank s \<longrightarrow>
            competitive_tier (competitive_context (Some (Some s))) = ''rebuild_mode''
            \<and> playoff_status (competitive_context (Some (Some s))) = ''unlikely''"
    by (simp add: competitive_context_def)
  ultimately show ?thesis by blast
qed

text \<open>C5 at the ranks 6, 7, 10 and 11, and through the cache at rank 7.\<close>

theorem competitive_tier_thresholds_witness:
  "competitive_tier (competitive_context (Some (Some (a_standings 6)))) = ''championship_contender''
   \<and> competitive_tier (competitive_context (Some (Some (a_standings 7)))) = ''play_in_team''
   \<and> competitive_tier (competitive_context (Some (Some (a_standings 10)))) = ''play_in_team''
   \<and> competitive_tier (competitive_context (Some (Some (a_standings 11)))) = ''rebuild_mode''
   \<and> fst (get_competitive_context 1610612747 (Inl ProviderError)
            [''standings'' \<mapsto> (Some (Some (a_standings 7)), 300000000)] 1000000 2000000)
       = Inr \<lparr>league_rank = 7, competitive_tier = ''play_in_team'', playoff_status = ''likely'',
              win_pct = 6 / 10, games_back = 5 / 2\<rparr>"
proof -
  have c: "[''standings'' \<mapsto> (Some (Some (a_standings r)), 300000000 :: int)] ''standings''
             = Some (Some (Some (a_standings r)), 300000000)" for r
    by simp
  have t: "(1000000 :: int) < 300000000" by simp
  have r: "standings.league_rank (a_standings r) = r" for r
    by (simp add: a_standings_def)
  have "competitive_tier (competitive_context (Some (Some (a_standings 6)))) = ''championship_contender''"
    using competitive_tier_thresholds
      [where c = "[''standings'' \<mapsto> (Some (Some (a_standings 6)), 300000000)]"
         and s = "a_standings 6" and expiry = 300000000 and t_get = 1000000
         and team_id = 1610612747 and api = "Inl ProviderError" and t_set = 2000000,
       OF c t]
    by (simp add: r)
  moreover have "competitive_tier (competitive_context (Some (Some (a_standings 7)))) = ''play_in_team''"
    using competitive_tier_thresholds
      [where c = "[''standings'' \<mapsto> (Some (Some (a_standings 7)), 300000000)]"
         and s = "a_standings 7" and expiry = 300000000 and t_get = 1000000
         and team_id = 1610612747 and api = "Inl ProviderError" and t_set = 2000000,
       OF c t]
    by (simp add: r)
  moreover have "competitive_tier (competitive_context (Some (Some (a_standings 10)))) = ''play_in_team''"
    using competitive_tier_thresholds
      [where c = "[''standings'' \<mapsto> (Some (Some (a_standings 10)), 300000000)]"
         and s = "a_standings 10" and expiry = 300000000 and t_get = 1000000
         and team_id = 1610612747 and api = "Inl ProviderError" and t_set = 2000000,
       OF c t]
    by (simp add: r)
  moreover have "competitive_tier (competitive_context (Some (Some (a_standings 11)))) = ''rebuild_mode''"
    using competitive_tier_thresholds
      [where c = "[''standings'' \<mapsto> (Some (Some (a_standings 11)), 300000000)]"
         and s = "a_standings 11" and expiry = 300000000 and t_get = 1000000
         and team_id = 1610612747 and api = "Inl ProviderError" and t_set = 2000000,
       OF c t]
    by (simp add: r)
  moreover have "fst (get_competitive_context 1610612747 (Inl ProviderError)
            [''standings'' \<mapsto> (Some (Some (a_standings 7)), 300000000)] 1000000 2000000)
       = Inr \<lparr>league_rank = 7, competitive_tier = ''play_in_team'', playoff_status = ''likely'',
              win_pct = 6 / 10, games_back = 5 / 2\<rparr>"
    using competitive_tier_thresholds
      [where c = "[''standings'' \<mapsto> (Some (Some (a_standings 7)), 300000000)]"
         and s = "a_standings 7" and expiry = 300000000 and t_get = 1000000
         and team_id = 1610612747 and api = "Inl ProviderError" and t_set = 2000000,
       OF c t]
    by (simp add: competitive_context_def a_standings_def)
  ultimately show ?thesis by blast
qed

subsection \<open>Momentum score\<close>

lemma round_half_even_bounds:
  assumes "of_int a \<le> x" and "x \<le> of_int b"
  shows "a \<le> round_half_even x \<and> round_half_even x \<le> b"
proof -
  have lo: "a \<le> \<lfloor>x\<rfloor>" using assms(1) by (simp add: le_floor_iff)
  have ge: "\<lfloor>x\<rfloor> \<le> round_half_even x"
    by (simp add: round_half_even_def Let_def)
  have up: "round_half_even x \<le> b"
  proof (cases "x = of_int b")
    case True
    then show ?thesis by (simp add: round_half_even_def)
  next
    case False
    with assms(2) have "x < of_int b" by simp
    then have "\<lfloor>x\<rfloor> < b" by (simp add: floor_less_iff)
    then show ?thesis by (simp add: round_half_even_def Let_def)
  qed
  from lo ge up show ?thesis by linarith
qed

lemma py_round_1_bounds:
  assumes "0 \<le> x" and "x \<le> 100"
  shows "0 \<le> py_round x 1 \<and> py_round x 1 \<le> 100"
proof -
  have "of_int 0 \<le> x * 10" "x * 10 \<le> of_int 1000" using assms by simp_all
  then have "0 \<le> round_half_even (x * 10) \<and> round_half_even (x * 10) \<le> 1000"
    by (rule round_half_even_bounds)
  then have "(0::real) \<le> of_int (round_half_even (x * 10))
           \<and> (of_int (round_half_even (x * 10)) :: real) \<le> 1000"
    by (metis of_int_0_le_iff of_int_le_iff of_int_numeral)
  then show ?thesis by (simp add: py_round_def)
qed

lemma round_half_even_near: "\<bar>real_of_int (round_half_even y) - y\<bar> \<le> 1 / 2"
proof -
  define f where "f = \<lfloor>y\<rfloor>"
  have f: "real_of_int f \<le> y" "y < real_of_int f + 1"
    unfolding f_def by linarith+
  have r: "round_half_even y =
      (if y - of_int f < 1 / 2 then f else if 1 / 2 < y - of_int f then f + 1
       else if even f then f else f + 1)"
    by (simp add: round_half_even_def f_def)
  consider "y - of_int f < 1 / 2" | "1 / 2 < y - of_int f" | "y - of_int f = 1 / 2"
    by linarith
  then show ?thesis
  proof cases
    case 1
    with r have "round_half_even y = f" by simp
    with 1 f show ?thesis by simp
  next
    case 2
    with r have "round_half_even y = f + 1" by simp
    with 2 f show ?thesis by simp
  next
    case 3
    with r have "round_half_even y = f \<or> round_half_even y = f + 1" by simp
    with 3 show ?thesis by auto
  qed
qed

lemma py_round_1_near: "\<bar>py_round x 1 - x\<bar> \<le> 1 / 20"
proof -
  have "\<bar>real_of_int (round_half_even (x * 10)) - x * 10\<bar> \<le> 1 / 2"
    by (rule round_half_even_near)
  then show ?thesis by (simp add: py_round_def abs_if field_simps split: if_splits)
qed

text \<open>
  C4. The score returned by \<open>calculate_momentum_score\<close> lies in \<open>[0, 100]\<close>: for every
  trends dictionary and streak dictionary (so for every recent win rate, streak type,
  streak length and momentum label), and whenever the function returns from lists of
  games. The score is the sum the claim describes, clamped to \<open>[0, 100]\<close> and rounded to
  one decimal: 50, plus (recent win rate - 0.5) times 60, plus (for a winning streak) or
  minus (for any other) 3 per game of the streak up to 20, plus 10 for positive and minus
  10 for negative momentum; with the empty trends dictionary the win rate term and the
  momentum term are 0. It differs from the clamped sum by at most 0.05. What the function
  returns from lists of games is that score on the trends and the streak of the lists.
\<close>

theorem momentum_score_in_range:
  "0 \<le> score (momentum_score tr sk) \<and> score (momentum_score tr sk) \<le> 100
   \<and> (\<forall>r. calculate_momentum_score games_trends games_streak = Inr r
          \<longrightarrow> 0 \<le> score r \<and> score r \<le> 100)
   \<and> score (momentum_score (Some t) sk)
       = py_round (max 0 (min 100
           (50 + (recent_win_rate t - 1 / 2) * 60
               + (if streak_type sk = ''winning'' then 1 else - 1)
                 * min (3 * real_of_int (streak_length sk)) 20
               + (if momentum t = ''positive'' then 10
                  else if momentum t = ''negative'' then - 10 else 0)))) 1
   \<and> score (momentum_score None sk)
       = py_round (max 0 (min 100
           (50 + (if streak_type sk = ''winning'' then 1 else - 1)
                 * min (3 * real_of_int (streak_length sk)) 20))) 1
   \<and> \<bar>score (momentum_score (Some t) sk)
        - max 0 (min 100
           (50 + (recent_win_rate t - 1 / 2) * 60
               + (if streak_type sk = ''winning'' then 1 else - 1)
                 * min (3 * real_of_int (streak_length sk)) 20
               + (if momentum t = ''positive'' then 10
                  else if momentum t = ''negative'' then - 10 else 0)))\<bar> \<le> 1 / 20
   \<and> (\<forall>r. calculate_momentum_score games_trends games_streak = Inr r \<longrightarrow>
         (\<exists>tr'. analyze_performance_trends games_trends = Inr tr'
                \<and> r = momentum_score tr' (get_team_win_streak games_streak)))"
proof -
  have core: "0 \<le> score (momentum_score t s) \<and> score (momentum_score t s) \<le> 100" for t s
    unfolding momentum_score_def Let_def
    by (simp only: momentum_result.simps) (rule py_round_1_bounds, simp_all)
  have pipe: "0 \<le> score r \<and> score r \<le> 100"
    if "calculate_momentum_score games_trends games_streak = Inr r" for r
    using that core by (auto simp: calculate_momentum_score_def split: sum.splits)
  have adj: "(if w then min (l * 3) 20 else - min (l * 3) 20)
             = (if w then 1 else - 1) * min (3 * l) (20::real)" for w l
    by (simp add: mult.commute)
  have some: "score (momentum_score (Some t) sk)
       = py_round (max 0 (min 100
           (50 + (recent_win_rate t - 1 / 2) * 60
               + (if streak_type sk = ''winning'' then 1 else - 1)
                 * min (3 * real_of_int (streak_length sk)) 20
               + (if momentum t = ''positive'' then 10
                  else if momentum t = ''negative'' then - 10 else 0)))) 1"
    unfolding momentum_score_def Let_def
    by (simp only: momentum_result.simps option.case adj)
  have none: "score (momentum_score None sk)
       = py_round (max 0 (min 100
           (50 + (if streak_type sk = ''winning'' then 1 else - 1)
                 * min (3 * real_of_int (streak_length sk)) 20))) 1"
    unfolding momentum_score_def Let_def
    by (simp only: momentum_result.simps option.case adj) simp
  have near: "\<bar>score (momentum_score (Some t) sk)
        - max 0 (min 100
           (50 + (recent_win_rate t - 1 / 2) * 60
               + (if streak_type sk = ''winning'' then 1 else - 1)
                 * min (3 * real_of_int (streak_length sk)) 20
               + (if momentum t = ''positive'' then 10
                  else if momentum t = ''negative'' then - 10 else 0)))\<bar> \<le> 1 / 20"
    unfolding some by (rule py_round_1_near)
  have src: "\<exists>tr'. analyze_performance_trends games_trends = Inr tr'
                \<and> r = momentum_score tr' (get_team_win_streak games_streak)"
    if "calculate_momentum_score games_trends games_streak = Inr r" for r
    using that by (auto simp: calculate_momentum_score_def split: sum.splits)
  have b: "\<forall>r. calculate_momentum_score games_trends games_streak = Inr r
          \<longrightarrow> 0 \<le> score r \<and> score r \<le> 100"
    using pipe by blast
  have f: "\<forall>r. calculate_momentum_score games_trends games_streak = Inr r \<longrightarrow>
         (\<exists>tr'. analyze_performance_trends games_trends = Inr tr'
                \<and> r = momentum_score tr' (get_team_win_streak games_streak))"
    using src by blast
  show ?thesis
    by (intro conjI core [of tr sk, THEN conjunct1] core [of tr sk, THEN conjunct2]
          b some none near f)
qed

text \<open>
  C4 at concrete inputs. Eleven wins: win rate 1, streak adjustment capped at 20, positive
  momentum, and the sum 110 is clamped to 100. Six wins in the last ten games with the
  most recent game lost: 50 + 6 - 12 + 10 = 54. A win rate of 0.6, a losing streak of one
  game and negative momentum: 50 + 6 - 3 - 10 = 43. A win rate of 0, a losing streak of
  ten games and negative momentum: the sum -10 is clamped to 0.
\<close>

theorem momentum_score_in_range_witness:
  "calculate_momentum_score eleven_wins eleven_wins
     = Inr \<lparr>score = 100, sentiment = ''excellent'', trend = ''improving''\<rparr>
   \<and> (0::real) \<le> 100 \<and> (100::real) \<le> 100
   \<and> calculate_momentum_score six_wins_four_losses six_wins_four_losses
     = Inr \<lparr>score = 54, sentiment = ''neutral'', trend = ''improving''\<rparr>
   \<and> score (momentum_score
         (Some \<lparr>trends.trend = ''declining'', recent_win_rate = 6 / 10,
                previous_win_rate = 7 / 10,
                scoring_trend = \<lparr>recent_avg = 100, previous_avg = 104, change = - 4\<rparr>,
                momentum = ''negative''\<rparr>)
         \<lparr>streak_type = ''losing'', streak_length = 1,
          recent_record = Some \<lparr>rr_wins = 6, rr_losses = 4\<rparr>\<rparr>) = 43
   \<and> score (momentum_score
         (Some \<lparr>trends.trend = ''declining'', recent_win_rate = 0,
                previous_win_rate = 3 / 10,
                scoring_trend = \<lparr>recent_avg = 95, previous_avg = 104, change = - 9\<rparr>,
                momentum = ''negative''\<rparr>)
         \<lparr>streak_type = ''losing'', streak_length = 10,
          recent_record = Some \<lparr>rr_wins = 0, rr_losses = 10\<rparr>\<rparr>) = 0"
proof -
  have t1: "analyze_performance_trends eleven_wins =
     Inr (Some \<lparr>trends.trend = ''improving'', recent_win_rate = 1, previous_win_rate = 1 / 10,
       scoring_trend = \<lparr>recent_avg = 110, previous_avg = 90, change = 20\<rparr>,
       momentum = ''positive''\<rparr>)"
    by (simp add: analyze_performance_trends_def eleven_wins_def a_game_def statistics_mean_def
          py_round_def round_half_even_def)
  have t2: "get_team_win_streak eleven_wins =
      \<lparr>streak_type = ''winning'', streak_length = 11,
       recent_record = Some \<lparr>rr_wins = 10, rr_losses = 0\<rparr>\<rparr>"
    by (simp add: get_team_win_streak_def eleven_wins_def a_game_def)
  have t3: "calculate_momentum_score eleven_wins eleven_wins
     = Inr \<lparr>score = 100, sentiment = ''excellent'', trend = ''improving''\<rparr>"
    by (simp add: calculate_momentum_score_def t1 t2 momentum_score_def
          py_round_def round_half_even_def)
  have u1: "analyze_performance_trends six_wins_four_losses =
     Inr (Some \<lparr>trends.trend = ''improving'', recent_win_rate = 6 / 10,
       previous_win_rate = 1 / 10,
       scoring_trend = \<lparr>recent_avg = 102, previous_avg = 80, change = 22\<rparr>,
       momentum = ''positive''\<rparr>)"
    by (simp add: analyze_performance_trends_def six_wins_four_losses_def a_game_def
          statistics_mean_def py_round_def round_half_even_def)
  have u2: "get_team_win_streak six_wins_four_losses =
      \<lparr>streak_type = ''losing'', streak_length = 4,
       recent_record = Some \<lparr>rr_wins = 6, rr_losses = 4\<rparr>\<rparr>"
    by (simp add: get_team_win_streak_def six_wins_four_losses_def a_game_def)
  have u3: "calculate_momentum_score six_wins_four_losses six_wins_four_losses
     = Inr \<lparr>score = 54, sentiment = ''neutral'', trend = ''improving''\<rparr>"
    by (simp add: calculate_momentum_score_def u1 u2 momentum_score_def
          py_round_def round_half_even_def)
  note th = momentum_score_in_range [where games_trends = eleven_wins
              and games_streak = eleven_wins and tr = None and sk = "get_team_win_streak []"]
  have v43: "score (momentum_score
         (Some \<lparr>trends.trend = ''declining'', recent_win_rate = 6 / 10,
                previous_win_rate = 7 / 10,
                scoring_trend = \<lparr>recent_avg = 100, previous_avg = 104, change = - 4\<rparr>,
                momentum = ''negative''\<rparr>)
         \<lparr>streak_type = ''losing'', streak_length = 1,
          recent_record = Some \<lparr>rr_wins = 6, rr_losses = 4\<rparr>\<rparr>) = 43"
    by (simp add: momentum_score_def py_round_def round_half_even_def)
  have v0: "score (momentum_score
         (Some \<lparr>trends.trend = ''declining'', recent_win_rate = 0,
                previous_win_rate = 3 / 10,
                scoring_trend = \<lparr>recent_avg = 95, previous_avg = 104, change = - 9\<rparr>,
                momentum = ''negative''\<rparr>)
         \<lparr>streak_type = ''losing'', streak_length = 10,
          recent_record = Some \<lparr>rr_wins = 0, rr_losses = 10\<rparr>\<rparr>) = 0"
    by (simp add: momentum_score_def py_round_def round_half_even_def)
  from th [THEN conjunct2, THEN conjunct2, THEN conjunct1] t3
  have "0 \<le> score \<lparr>score = 100, sentiment = ''excellent'', trend = ''improving''\<rparr>
      \<and> score \<lparr>score = 100, sentiment = ''excellent'', trend = ''improving''\<rparr> \<le> 100"
    by blast
  then have rng: "(0::real) \<le> 100 \<and> (100::real) \<le> 100"
    by (simp only: momentum_result.simps)
  from t3 rng u3 v43 v0 show ?thesis by blast
qed

subsection \<open>Empty inputs\<close>

text \<open>
  C8. Every derivation answers an empty or missing input with a default and no exception:
  no games give the zero-valued metrics with consistency \<open>unknown\<close>; a failed or empty
  standings lookup gives the empty dictionary, and the empty dictionary (or \<open>None\<close>) gives
  rank 15, tier \<open>unknown\<close>, win percentage 0.5 and 0 games back; no games give the
  \<open>unknown\<close> streak of length 0, the empty trends dictionary and the momentum score 50;
  an empty roster gives no performers.
\<close>

theorem empty_inputs_give_defaults:
  "get_performance_metrics [] =
       Inr \<lparr>win_rate = 0, wins = 0, losses = 0, avg_points = 0, avg_margin = 0,
            avg_fg_pct = 0, consistency = ''unknown''\<rparr>
   \<and> standings_fetch team_id (Inl e) = None
   \<and> standings_fetch team_id (Inr []) = None
   \<and> competitive_context (Some None) =
       \<lparr>league_rank = 15, competitive_tier = ''unknown'', playoff_status = ''unknown'',
        win_pct = 1 / 2, games_back = 0\<rparr>
   \<and> competitive_context None =
       \<lparr>league_rank = 15, competitive_tier = ''unknown'', playoff_status = ''unknown'',
        win_pct = 1 / 2, games_back = 0\<rparr>
   \<and> get_team_win_streak [] =
       \<lparr>streak_type = ''unknown'', streak_length = 0, recent_record = None\<rparr>
   \<and> analyze_performance_trends [] = Inr None
   \<and> calculate_momentum_score [] [] =
       Inr \<lparr>score = 50, sentiment = ''neutral'', trend = ''stable''\<rparr>
   \<and> top_performers_fetch [] player_log n = []"
proof -
  have m: "momentum_score None \<lparr>streak_type = ''unknown'', streak_length = 0, recent_record = None\<rparr>
      = \<lparr>score = 50, sentiment = ''neutral'', trend = ''stable''\<rparr>"
    by (simp add: momentum_score_def py_round_def round_half_even_def)
  show ?thesis
    by (simp add: get_performance_metrics_def standings_fetch_def competitive_context_def
          get_team_win_streak_def analyze_performance_trends_def calculate_momentum_score_def
          top_performers_fetch_def m)
qed

subsection \<open>Top performers\<close>

lemma collect_performers_append:
  "collect_performers player_log n ps acc = acc @ concat (map (candidate player_log n) ps)"
  by (induction ps arbitrary: acc) (auto simp: candidate_def split: sum.splits)

lemma py_lt_irrefl: "\<not> py_lt a a"
  by (cases a) auto

lemma set_insert_reverse: "set (insert_reverse k x ys) = insert x (set ys)"
  by (induction ys) auto

lemma mset_insert_reverse: "mset (insert_reverse k x ys) = add_mset x (mset ys)"
  by (induction ys) auto

lemma mset_sorted_reverse: "mset (sorted_reverse k xs) = mset xs"
  by (induction xs) (auto simp: mset_insert_reverse)

lemma filter_insert_reverse:
  "filter (\<lambda>e. k e = v) (insert_reverse k x ys) =
     (if k x = v then x # filter (\<lambda>e. k e = v) ys else filter (\<lambda>e. k e = v) ys)"
  by (induction ys) (auto simp: py_lt_irrefl)

lemma sorted_reverse_stable:
  "filter (\<lambda>e. k e = v) (sorted_reverse k xs) = filter (\<lambda>e. k e = v) xs"
  by (induction xs) (auto simp: filter_insert_reverse)

lemma sorted_wrt_insert_reverse:
  fixes f :: "'a \<Rightarrow> real"
  assumes srt: "sorted_wrt (\<lambda>a b. f b \<le> f a) ys"
    and agree: "\<And>a b. a \<in> insert x (set ys) \<Longrightarrow> b \<in> insert x (set ys)
                  \<Longrightarrow> py_lt (k a) (k b) = (f a < f b)"
  shows "sorted_wrt (\<lambda>a b. f b \<le> f a) (insert_reverse k x ys)"
  using assms
proof (induction ys)
  case Nil
  then show ?case by simp
next
  case (Cons y ys)
  have xy: "py_lt (k x) (k y) = (f x < f y)"
    by (rule Cons.prems(2)) simp_all
  have tail: "sorted_wrt (\<lambda>a b. f b \<le> f a) ys" and ytail: "\<forall>z\<in>set ys. f z \<le> f y"
    using Cons.prems(1) by simp_all
  show ?case
  proof (cases "f x < f y")
    case True
    have "sorted_wrt (\<lambda>a b. f b \<le> f a) (insert_reverse k x ys)"
    proof (rule Cons.IH [OF tail])
      fix a b assume "a \<in> insert x (set ys)" "b \<in> insert x (set ys)"
      then show "py_lt (k a) (k b) = (f a < f b)"
        by (intro Cons.prems(2)) auto
    qed
    with True xy ytail show ?thesis
      by (simp add: set_insert_reverse)
  next
    case False
    then have "f y \<le> f x" by simp
    with ytail have "\<forall>z\<in>set ys. f z \<le> f x" by auto
    with False xy tail ytail show ?thesis by simp
  qed
qed

lemma set_sorted_reverse: "set (sorted_reverse k xs) = set xs"
  by (induction xs) (simp_all add: set_insert_reverse)

lemma sorted_wrt_sorted_reverse:
  fixes f :: "'a \<Rightarrow> real"
  assumes agree: "\<And>a b. a \<in> set xs \<Longrightarrow> b \<in> set xs \<Longrightarrow> py_lt (k a) (k b) = (f a < f b)"
  shows "sorted_wrt (\<lambda>a b. f b \<le> f a) (sorted_reverse k xs)"
  using assms
proof (induction xs)
  case Nil
  then show ?case by simp
next
  case (Cons x xs)
  have ih: "sorted_wrt (\<lambda>a b. f b \<le> f a) (sorted_reverse k xs)"
  proof (rule Cons.IH)
    fix a b assume "a \<in> set xs" "b \<in> set xs"
    then show "py_lt (k a) (k b) = (f a < f b)" by (intro Cons.prems) simp_all
  qed
  have "sorted_wrt (\<lambda>a b. f b \<le> f a) (insert_reverse k x (sorted_reverse k xs))"
  proof (rule sorted_wrt_insert_reverse [OF ih])
    fix a b
    assume "a \<in> insert x (set (sorted_reverse k xs))" "b \<in> insert x (set (sorted_reverse k xs))"
    then show "py_lt (k a) (k b) = (f a < f b)"
      by (intro Cons.prems) (simp_all add: set_sorted_reverse)
  qed
  then show ?case by simp
qed

lemma sorted_reverse_descending:
  assumes "(\<forall>x\<in>set xs. \<exists>r. k x = Fin r) \<or> (\<forall>x\<in>set xs. k x = NaN)"
  shows "sorted_wrt (\<lambda>a b. \<not> py_lt (k a) (k b)) (sorted_reverse k xs)"
proof -
  define f where "f a = (case k a of NaN \<Rightarrow> 0 | Fin r \<Rightarrow> r)" for a
  have agree: "py_lt (k a) (k b) = (f a < f b)" if "a \<in> set xs" "b \<in> set xs" for a b
  proof -
    from assms show ?thesis
    proof
      assume "\<forall>x\<in>set xs. \<exists>r. k x = Fin r"
      with that obtain r s where "k a = Fin r" "k b = Fin s" by blast
      then show ?thesis by (simp add: f_def)
    next
      assume "\<forall>x\<in>set xs. k x = NaN"
      with that have "k a = NaN" "k b = NaN" by simp_all
      then show ?thesis by (simp add: f_def)
    qed
  qed
  then have "sorted_wrt (\<lambda>a b. f b \<le> f a) (sorted_reverse k xs)"
    by (rule sorted_wrt_sorted_reverse)
  then show ?thesis
  proof (rule sorted_wrt_mono_rel [rotated])
    fix a b
    assume "a \<in> set (sorted_reverse k xs)" "b \<in> set (sorted_reverse k xs)" "f b \<le> f a"
    then show "\<not> py_lt (k a) (k b)"
      using agree [of a b] by (simp add: set_sorted_reverse)
  qed
qed
lemma candidate_keys:
  "(\<forall>x\<in>set (concat (map (candidate player_log n) ps)). \<exists>r. avg_points x = Fin r)
   \<or> (\<forall>x\<in>set (concat (map (candidate player_log n) ps)). avg_points x = NaN)"
proof (cases "n = 0")
  case True
  then have "\<forall>x\<in>set (concat (map (candidate player_log n) ps)). avg_points x = NaN"
    by (auto simp: candidate_def performer_entry_def series_mean_def split: sum.splits if_splits)
  then show ?thesis ..
next
  case False
  have "\<exists>r. avg_points x = Fin r" if "x \<in> set (candidate player_log n p)" for x p
  proof -
    from that obtain df where df: "df \<noteq> []" and x: "x = performer_entry p (take n df)"
      by (auto simp: candidate_def split: sum.splits if_splits)
    from df False have "map PTS (take n df) \<noteq> []" by simp
    then show ?thesis unfolding x by (simp add: performer_entry_def series_mean_def)
  qed
  then have "\<forall>x\<in>set (concat (map (candidate player_log n) ps)). \<exists>r. avg_points x = Fin r"
    by auto
  then show ?thesis ..
qed

text \<open>
  C7. The loop builds, in roster order, the entries of the first 10 roster players whose
  log could be fetched and is not empty. The result has at most 5 entries, no entry is
  followed by one with more average points, and among entries with the same average
  points the result keeps the roster order; it is the first 5 entries of a stable
  descending rearrangement of the loop's list.
\<close>

theorem top_performers_first_ten_top_five_stable:
  "collect_performers player_log n (take 10 roster) []
     = concat (map (candidate player_log n) (take 10 roster))
   \<and> length (top_performers_fetch roster player_log n) \<le> 5
   \<and> sorted_wrt (\<lambda>a b. \<not> py_lt (avg_points a) (avg_points b))
        (top_performers_fetch roster player_log n)
   \<and> (\<forall>v. prefix (filter (\<lambda>e. avg_points e = v) (top_performers_fetch roster player_log n))
               (filter (\<lambda>e. avg_points e = v)
                  (concat (map (candidate player_log n) (take 10 roster)))))
   \<and> (\<exists>srt. mset srt = mset (concat (map (candidate player_log n) (take 10 roster)))
          \<and> sorted_wrt (\<lambda>a b. \<not> py_lt (avg_points a) (avg_points b)) srt
          \<and> (\<forall>v. filter (\<lambda>e. avg_points e = v) srt
                 = filter (\<lambda>e. avg_points e = v)
                     (concat (map (candidate player_log n) (take 10 roster))))
          \<and> top_performers_fetch roster player_log n = take 5 srt)"
proof -
  let ?cands = "concat (map (candidate player_log n) (take 10 roster))"
  let ?srt = "sorted_reverse avg_points ?cands"
  let ?res = "top_performers_fetch roster player_log n"
  have loop: "collect_performers player_log n (take 10 roster) [] = ?cands"
    by (simp add: collect_performers_append)
  have res: "?res = take 5 ?srt"
    by (simp add: top_performers_fetch_def loop)
  have len: "length ?res \<le> 5"
    by (simp add: res)
  have perm: "mset ?srt = mset ?cands"
    by (rule mset_sorted_reverse)
  have desc: "sorted_wrt (\<lambda>a b. \<not> py_lt (avg_points a) (avg_points b)) ?srt"
    by (rule sorted_reverse_descending) (rule candidate_keys)
  have stable: "filter (\<lambda>e. avg_points e = v) ?srt = filter (\<lambda>e. avg_points e = v) ?cands" for v
    by (rule sorted_reverse_stable)
  have desc_res: "sorted_wrt (\<lambda>a b. \<not> py_lt (avg_points a) (avg_points b)) ?res"
    unfolding res using desc by (rule sorted_wrt_take)
  have ties: "prefix (filter (\<lambda>e. avg_points e = v) ?res) (filter (\<lambda>e. avg_points e = v) ?cands)"
    for v
  proof -
    have "prefix (take 5 ?srt) ?srt" by (rule take_is_prefix)
    then have "prefix (filter (\<lambda>e. avg_points e = v) (take 5 ?srt))
                      (filter (\<lambda>e. avg_points e = v) ?srt)"
      by (rule filter_mono_prefix)
    then show ?thesis by (simp only: res stable)
  qed
  have ex: "\<exists>srt. mset srt = mset ?cands
          \<and> sorted_wrt (\<lambda>a b. \<not> py_lt (avg_points a) (avg_points b)) srt
          \<and> (\<forall>v. filter (\<lambda>e. avg_points e = v) srt = filter (\<lambda>e. avg_points e = v) ?cands)
          \<and> ?res = take 5 srt"
    using perm desc stable res by blast
  from loop len desc_res ties ex show ?thesis by blast
qed

text \<open>
  C7 on the twelve players with a window of two games: players 2 and 3 are skipped,
  players 11 and 12 are not looked at, and player 1 precedes player 5 at 15 points.
\<close>

theorem top_performers_first_ten_top_five_stable_witness:
  "length (top_performers_fetch example_roster example_logs 2) \<le> 5
   \<and> map performer.player_name (top_performers_fetch example_roster example_logs 2)
     = [''P4'', ''P7'', ''P1'', ''P5'', ''P10'']
   \<and> map performer.avg_points (top_performers_fetch example_roster example_logs 2)
     = [Fin 30, Fin 25, Fin 15, Fin 15, Fin 5]"
proof -
  have "map performer.player_name (top_performers_fetch example_roster example_logs 2)
     = [''P4'', ''P7'', ''P1'', ''P5'', ''P10'']
   \<and> map performer.avg_points (top_performers_fetch example_roster example_logs 2)
     = [Fin 30, Fin 25, Fin 15, Fin 15, Fin 5]"
    by (simp add: top_performers_fetch_def example_roster_def example_logs_def a_player_def
          a_row_def performer_entry_def series_mean_def py_round_def round_half_even_def)
  with top_performers_first_ten_top_five_stable [of example_logs 2 example_roster]
  show ?thesis by blast
qed

end
